theory Spec2Isabelle
  imports Complex_Main "HOL-Library.AList"
begin

section \<open>Data model (shared schema)\<close>

text \<open>
  A JavaScript \<^verbatim>\<open>Date\<close> is the number of milliseconds since the epoch. The \<^verbatim>\<open>decimal\<close>
  columns of the schema are strings in TypeScript and stay strings here; JavaScript
  numbers are exact rationals (rounding, NaN and infinities of IEEE doubles are outside
  the model). The nullable boolean \<^verbatim>\<open>isCheckedIn\<close> is only ever tested for truthiness, so
  \<^verbatim>\<open>null\<close> and \<^verbatim>\<open>false\<close> are both \<open>False\<close>.
\<close>

type_synonym instant = int

record Teacher =
  idT :: string
  name :: string
  hourlyRate :: string
  maxBillableHours :: string
  isCheckedIn :: bool
  currentCheckInTime :: "instant option"

record InsertTeacher =
  nameI :: string
  hourlyRateI :: string
  maxBillableHoursI :: string

record TimeEntry =
  idE :: string
  teacherId :: string
  date :: string
  checkInTime :: instant
  checkOutTime :: "instant option"
  hoursWorked :: "string option"
  billableHours :: "string option"
  pay :: "string option"

record InsertTimeEntry =
  teacherIdI :: string
  dateI :: string
  checkInTimeI :: instant
  checkOutTimeI :: "instant option"

record AppSettings =
  idS :: string
  pinHash :: string

text \<open>
  \<^verbatim>\<open>Partial<Teacher>\<close> and \<^verbatim>\<open>Partial<TimeEntry>\<close>: every key is optional; \<open>None\<close> is an absent
  key, \<open>Some v\<close> a key present with value \<open>v\<close> (for a nullable column \<open>Some None\<close> is
  the key present with \<^verbatim>\<open>null\<close>).
\<close>

record PartialTeacher =
  idT_u :: "string option"
  name_u :: "string option"
  hourlyRate_u :: "string option"
  maxBillableHours_u :: "string option"
  isCheckedIn_u :: "bool option"
  currentCheckInTime_u :: "instant option option"

record PartialTimeEntry =
  idE_u :: "string option"
  teacherId_u :: "string option"
  date_u :: "string option"
  checkInTime_u :: "instant option"
  checkOutTime_u :: "instant option option"
  hoursWorked_u :: "string option option"
  billableHours_u :: "string option option"
  pay_u :: "string option option"

definition no_teacher_updates :: PartialTeacher where
  "no_teacher_updates =
     \<lparr>idT_u = None, name_u = None, hourlyRate_u = None, maxBillableHours_u = None,
      isCheckedIn_u = None, currentCheckInTime_u = None\<rparr>"

definition no_entry_updates :: PartialTimeEntry where
  "no_entry_updates =
     \<lparr>idE_u = None, teacherId_u = None, date_u = None, checkInTime_u = None,
      checkOutTime_u = None, hoursWorked_u = None, billableHours_u = None, pay_u = None\<rparr>"

text \<open>The object spread \<^verbatim>\<open>{ ...x, ...updates }\<close>: a key of \<^verbatim>\<open>updates\<close> wins.\<close>

definition spread :: "'a \<Rightarrow> 'a option \<Rightarrow> 'a" where
  "spread old new = (case new of None \<Rightarrow> old | Some v \<Rightarrow> v)"

definition spread_teacher :: "Teacher \<Rightarrow> PartialTeacher \<Rightarrow> Teacher" where
  "spread_teacher t u =
     \<lparr>idT = spread (idT t) (idT_u u),
      name = spread (name t) (name_u u),
      hourlyRate = spread (hourlyRate t) (hourlyRate_u u),
      maxBillableHours = spread (maxBillableHours t) (maxBillableHours_u u),
      isCheckedIn = spread (isCheckedIn t) (isCheckedIn_u u),
      currentCheckInTime = spread (currentCheckInTime t) (currentCheckInTime_u u)\<rparr>"

definition spread_entry :: "TimeEntry \<Rightarrow> PartialTimeEntry \<Rightarrow> TimeEntry" where
  "spread_entry e u =
     \<lparr>idE = spread (idE e) (idE_u u),
      teacherId = spread (teacherId e) (teacherId_u u),
      date = spread (date e) (date_u u),
      checkInTime = spread (checkInTime e) (checkInTime_u u),
      checkOutTime = spread (checkOutTime e) (checkOutTime_u u),
      hoursWorked = spread (hoursWorked e) (hoursWorked_u u),
      billableHours = spread (billableHours e) (billableHours_u u),
      pay = spread (pay e) (pay_u u)\<rparr>"

section \<open>JavaScript built-ins used by the server\<close>

text \<open>
  A \<^verbatim>\<open>Map\<close> keeps its keys in insertion order: an association list. \<^verbatim>\<open>set\<close> on a present
  key replaces the value in place, on a new key appends; \<^verbatim>\<open>delete\<close> answers whether the key
  was present.
\<close>

type_synonym ('k, 'v) jsmap = "('k \<times> 'v) list"

definition map_get :: "('k, 'v) jsmap \<Rightarrow> 'k \<Rightarrow> 'v option" where
  "map_get m k = map_of m k"

definition map_set :: "'k \<Rightarrow> 'v \<Rightarrow> ('k, 'v) jsmap \<Rightarrow> ('k, 'v) jsmap" where
  "map_set k v m = AList.update k v m"

definition map_has :: "('k, 'v) jsmap \<Rightarrow> 'k \<Rightarrow> bool" where
  "map_has m k = (map_of m k \<noteq> None)"

definition map_delete :: "'k \<Rightarrow> ('k, 'v) jsmap \<Rightarrow> ('k, 'v) jsmap" where
  "map_delete k m = AList.delete k m"

definition map_values :: "('k, 'v) jsmap \<Rightarrow> 'v list" where
  "map_values m = map snd m"

text \<open>
  \<^verbatim>\<open>now.toISOString().split('T')[0]\<close>: the UTC calendar date of an instant, as
  \<^verbatim>\<open>YYYY-MM-DD\<close> (a sign and six digits for a year outside 0..9999).
\<close>

definition digit_char :: "nat \<Rightarrow> char" where
  "digit_char d = ''0123456789'' ! (d mod 10)"

primrec digits :: "nat \<Rightarrow> nat \<Rightarrow> string" where
  "digits 0 n = []"
| "digits (Suc w) n = digits w (n div 10) @ [digit_char (n mod 10)]"

definition civil_from_days :: "int \<Rightarrow> int \<times> int \<times> int" where
  "civil_from_days days =
     (let z = days + 719468;
          era = z div 146097;
          doe = z - era * 146097;
          yoe = (doe - doe div 1460 + doe div 36524 - doe div 146096) div 365;
          doy = doe - (365 * yoe + yoe div 4 - yoe div 100);
          mp = (5 * doy + 2) div 153;
          d = doy - (153 * mp + 2) div 5 + 1;
          m = (if mp < 10 then mp + 3 else mp - 9);
          y = yoe + era * 400 + (if m \<le> 2 then 1 else 0)
      in (y, m, d))"

definition year_string :: "int \<Rightarrow> string" where
  "year_string y =
     (if 0 \<le> y \<and> y \<le> 9999 then digits 4 (nat y)
      else (if y < 0 then ''-'' else ''+'') @ digits 6 (nat \<bar>y\<bar>))"

definition toISODate :: "instant \<Rightarrow> string" where
  "toISODate ms =
     (case civil_from_days (ms div 86400000) of
        (y, m, d) \<Rightarrow> year_string y @ ''-'' @ digits 2 (nat m) @ ''-'' @ digits 2 (nat d))"

text \<open>
  \<^verbatim>\<open>Array.prototype.sort(compare)\<close> is stable; \<open>a\<close> goes before \<open>b\<close> when
  \<open>compare a b < 0\<close>.
\<close>

fun insort_cmp :: "('a \<Rightarrow> 'a \<Rightarrow> int) \<Rightarrow> 'a \<Rightarrow> 'a list \<Rightarrow> 'a list" where
  "insort_cmp cmp x [] = [x]"
| "insort_cmp cmp x (y # ys) =
     (if cmp x y \<le> 0 then x # y # ys else y # insort_cmp cmp x ys)"

definition array_sort :: "('a \<Rightarrow> 'a \<Rightarrow> int) \<Rightarrow> 'a list \<Rightarrow> 'a list" where
  "array_sort cmp xs = foldr (insort_cmp cmp) xs []"

section \<open>MemStorage (server/storage.ts)\<close>

text \<open>
  The storage object is passed explicitly and returned updated. \<^verbatim>\<open>randomUUID()\<close> is an
  input of each creating operation. In \<open>createTimeEntry\<close>, \<^verbatim>\<open>checkOutTime || null\<close> is the
  check-out time itself: a \<^verbatim>\<open>Date\<close> is truthy, and an absent one is \<^verbatim>\<open>null\<close>.
\<close>

record MemStorage =
  teachers :: "(string, Teacher) jsmap"
  timeEntries :: "(string, TimeEntry) jsmap"
  appSettings :: "AppSettings option"

definition constructor :: MemStorage where
  "constructor = \<lparr>teachers = [], timeEntries = [], appSettings = None\<rparr>"

definition getTeachers :: "MemStorage \<Rightarrow> Teacher list" where
  "getTeachers s = map_values (teachers s)"

definition getTeacher :: "MemStorage \<Rightarrow> string \<Rightarrow> Teacher option" where
  "getTeacher s i = map_get (teachers s) i"

definition createTeacher :: "MemStorage \<Rightarrow> string \<Rightarrow> InsertTeacher \<Rightarrow> Teacher \<times> MemStorage" where
  "createTeacher s uuid ins =
     (let teacher = \<lparr>idT = uuid, name = nameI ins, hourlyRate = hourlyRateI ins,
                     maxBillableHours = maxBillableHoursI ins,
                     isCheckedIn = False, currentCheckInTime = None\<rparr>
      in (teacher, s\<lparr>teachers := map_set uuid teacher (teachers s)\<rparr>))"

definition updateTeacher ::
  "MemStorage \<Rightarrow> string \<Rightarrow> PartialTeacher \<Rightarrow> Teacher option \<times> MemStorage" where
  "updateTeacher s i updates =
     (case map_get (teachers s) i of
        None \<Rightarrow> (None, s)
      | Some teacher \<Rightarrow>
          (let updatedTeacher = spread_teacher teacher updates
           in (Some updatedTeacher, s\<lparr>teachers := map_set i updatedTeacher (teachers s)\<rparr>)))"

definition deleteTeacher :: "MemStorage \<Rightarrow> string \<Rightarrow> bool \<times> MemStorage" where
  "deleteTeacher s i = (map_has (teachers s) i, s\<lparr>teachers := map_delete i (teachers s)\<rparr>)"

definition getTimeEntries :: "MemStorage \<Rightarrow> TimeEntry list" where
  "getTimeEntries s = map_values (timeEntries s)"

definition getTimeEntriesByTeacher :: "MemStorage \<Rightarrow> string \<Rightarrow> TimeEntry list" where
  "getTimeEntriesByTeacher s tid = filter (\<lambda>entry. teacherId entry = tid) (map_values (timeEntries s))"

definition createTimeEntry ::
  "MemStorage \<Rightarrow> string \<Rightarrow> InsertTimeEntry \<Rightarrow> TimeEntry \<times> MemStorage" where
  "createTimeEntry s uuid ins =
     (let timeEntry = \<lparr>idE = uuid, teacherId = teacherIdI ins, date = dateI ins,
                       checkInTime = checkInTimeI ins, checkOutTime = checkOutTimeI ins,
                       hoursWorked = None, billableHours = None, pay = None\<rparr>
      in (timeEntry, s\<lparr>timeEntries := map_set uuid timeEntry (timeEntries s)\<rparr>))"

definition updateTimeEntry ::
  "MemStorage \<Rightarrow> string \<Rightarrow> PartialTimeEntry \<Rightarrow> TimeEntry option \<times> MemStorage" where
  "updateTimeEntry s i updates =
     (case map_get (timeEntries s) i of
        None \<Rightarrow> (None, s)
      | Some timeEntry \<Rightarrow>
          (let updatedTimeEntry = spread_entry timeEntry updates
           in (Some updatedTimeEntry,
               s\<lparr>timeEntries := map_set i updatedTimeEntry (timeEntries s)\<rparr>)))"

definition getAppSettings :: "MemStorage \<Rightarrow> AppSettings option" where
  "getAppSettings s = appSettings s"

definition createAppSettings :: "MemStorage \<Rightarrow> string \<Rightarrow> string \<Rightarrow> AppSettings \<times> MemStorage" where
  "createAppSettings s uuid h =
     (let settings = \<lparr>idS = uuid, pinHash = h\<rparr>
      in (settings, s\<lparr>appSettings := Some settings\<rparr>))"

text \<open>\<^verbatim>\<open>bcrypt.compare\<close> is a parameter.\<close>

definition validatePin :: "(string \<Rightarrow> string \<Rightarrow> bool) \<Rightarrow> MemStorage \<Rightarrow> string \<Rightarrow> bool" where
  "validatePin compare s pin =
     (case appSettings s of None \<Rightarrow> False | Some settings \<Rightarrow> compare pin (pinHash settings))"

definition resetAllData :: "MemStorage \<Rightarrow> MemStorage" where
  "resetAllData s = s\<lparr>teachers := [], timeEntries := [], appSettings := None\<rparr>"

section \<open>Request handlers (server/routes.ts)\<close>

text \<open>
  A response is its status code with either a JSON payload or a \<^verbatim>\<open>{ message }\<close> object.
  Each handler returns its response and the storage it leaves behind. The admin flag of
  the session is an input. The in-memory storage never throws, so the only \<^verbatim>\<open>catch\<close>
  branches that can run are the ones after a schema \<^verbatim>\<open>parse\<close>.
\<close>

datatype 'a response = Json nat 'a | Message nat string

text \<open>
  \<^verbatim>\<open>pinSetupSchema\<close> and \<^verbatim>\<open>pinValidationSchema\<close>: a string of 4 to 6 characters. The body is
  its \<^verbatim>\<open>pin\<close> key when that is a string; \<open>None\<close> is the result of a \<^verbatim>\<open>parse\<close> that throws.
\<close>

definition pinSetupSchema_parse :: "string option \<Rightarrow> string option" where
  "pinSetupSchema_parse body =
     (case body of
        None \<Rightarrow> None
      | Some pin \<Rightarrow> if 4 \<le> length pin \<and> length pin \<le> 6 then Some pin else None)"

text \<open>\<^verbatim>\<open>POST /api/settings/setup-pin\<close>; \<open>hash\<close> is \<^verbatim>\<open>bcrypt.hash(_, 10)\<close>.\<close>

definition setup_pin ::
  "(string \<Rightarrow> string) \<Rightarrow> string \<Rightarrow> MemStorage \<Rightarrow> string option \<Rightarrow> unit response \<times> MemStorage" where
  "setup_pin hash uuid s body =
     (case pinSetupSchema_parse body of
        None \<Rightarrow> (Message 400 ''Invalid PIN format'', s)
      | Some pin \<Rightarrow>
          (case getAppSettings s of
             Some settings \<Rightarrow> (Message 400 ''PIN already set up'', s)
           | None \<Rightarrow>
               (Message 200 ''PIN set up successfully'',
                snd (createAppSettings s uuid (hash pin)))))"

text \<open>\<^verbatim>\<open>POST /api/auth/validate-pin\<close>; the second component is \<^verbatim>\<open>session.isAdmin\<close> afterwards.\<close>

definition validate_pin ::
  "(string \<Rightarrow> string \<Rightarrow> bool) \<Rightarrow> MemStorage \<Rightarrow> bool \<Rightarrow> string option \<Rightarrow> unit response \<times> bool" where
  "validate_pin compare s isAdmin body =
     (case pinSetupSchema_parse body of
        None \<Rightarrow> (Message 400 ''Invalid PIN format'', isAdmin)
      | Some pin \<Rightarrow>
          if validatePin compare s pin then (Message 200 ''PIN validated successfully'', True)
          else (Message 401 ''Invalid PIN'', isAdmin))"

text \<open>
  \<^verbatim>\<open>POST /api/teachers\<close>; the body is what \<^verbatim>\<open>insertTeacherSchema.parse\<close> returns, \<open>None\<close> when it
  throws.
\<close>

definition create_teacher ::
  "bool \<Rightarrow> string \<Rightarrow> MemStorage \<Rightarrow> InsertTeacher option \<Rightarrow> Teacher response \<times> MemStorage" where
  "create_teacher isAdmin uuid s body =
     (if isAdmin then
        (case body of
           None \<Rightarrow> (Message 400 ''Invalid teacher data'', s)
         | Some teacherData \<Rightarrow>
             (case createTeacher s uuid teacherData of
                (teacher, s') \<Rightarrow> (Json 201 teacher, s')))
      else (Message 403 ''Admin access required'', s))"

text \<open>\<^verbatim>\<open>PATCH /api/teachers/:id\<close>; the body goes to the storage as it came.\<close>

definition patch_teacher ::
  "bool \<Rightarrow> MemStorage \<Rightarrow> string \<Rightarrow> PartialTeacher \<Rightarrow> Teacher response \<times> MemStorage" where
  "patch_teacher isAdmin s i updates =
     (if isAdmin then
        (case updateTeacher s i updates of
           (None, s') \<Rightarrow> (Message 404 ''Teacher not found'', s')
         | (Some teacher, s') \<Rightarrow> (Json 200 teacher, s'))
      else (Message 403 ''Admin access required'', s))"

text \<open>\<^verbatim>\<open>DELETE /api/teachers/:id\<close>\<close>

definition delete_teacher ::
  "bool \<Rightarrow> MemStorage \<Rightarrow> string \<Rightarrow> unit response \<times> MemStorage" where
  "delete_teacher isAdmin s i =
     (if isAdmin then
        (case deleteTeacher s i of
           (False, s') \<Rightarrow> (Message 404 ''Teacher not found'', s')
         | (True, s') \<Rightarrow> (Message 200 ''Teacher deleted successfully'', s'))
      else (Message 403 ''Admin access required'', s))"

text \<open>\<^verbatim>\<open>POST /api/teachers/:id/checkin\<close>; \<open>now\<close> is \<^verbatim>\<open>new Date()\<close>.\<close>

definition checkin ::
  "MemStorage \<Rightarrow> string \<Rightarrow> instant \<Rightarrow> string \<Rightarrow> Teacher option response \<times> MemStorage" where
  "checkin s i now uuid =
     (case getTeacher s i of
        None \<Rightarrow> (Message 404 ''Teacher not found'', s)
      | Some teacher \<Rightarrow>
          if isCheckedIn teacher then (Message 400 ''Teacher already checked in'', s)
          else
            (case updateTeacher s i
                    (no_teacher_updates\<lparr>isCheckedIn_u := Some True,
                                         currentCheckInTime_u := Some (Some now)\<rparr>) of
               (updatedTeacher, s1) \<Rightarrow>
                 (let today = toISODate now;
                      s2 = snd (createTimeEntry s1 uuid
                                  \<lparr>teacherIdI = i, dateI = today, checkInTimeI = now,
                                   checkOutTimeI = None\<rparr>)
                  in (Json 200 updatedTeacher, s2))))"

text \<open>
  \<^verbatim>\<open>POST /api/teachers/:id/checkout\<close>; \<open>parseFloat\<close> and \<open>toString\<close> (of a number) are
  parameters.
\<close>

definition elapsed_hours :: "instant \<Rightarrow> instant \<Rightarrow> rat" where
  "elapsed_hours now checkIn = of_int (now - checkIn) / (1000 * 60 * 60)"

definition checkout ::
  "(string \<Rightarrow> rat) \<Rightarrow> (rat \<Rightarrow> string) \<Rightarrow> MemStorage \<Rightarrow> string \<Rightarrow> instant
     \<Rightarrow> Teacher option response \<times> MemStorage" where
  "checkout parseFloat toString s i now =
     (case getTeacher s i of
        None \<Rightarrow> (Message 404 ''Teacher not found'', s)
      | Some teacher \<Rightarrow>
          (case (isCheckedIn teacher, currentCheckInTime teacher) of
             (True, Some checkIn) \<Rightarrow>
               (let hours = elapsed_hours now checkIn;
                    maxHours = parseFloat (maxBillableHours teacher);
                    billable = min hours maxHours;
                    payment = billable * parseFloat (hourlyRate teacher)
                in (case updateTeacher s i
                           (no_teacher_updates\<lparr>isCheckedIn_u := Some False,
                                                currentCheckInTime_u := Some None\<rparr>) of
                      (updatedTeacher, s1) \<Rightarrow>
                        (let today = toISODate now;
                             todayEntry =
                               find (\<lambda>entry. date entry = today \<and> checkOutTime entry = None)
                                 (getTimeEntriesByTeacher s1 i);
                             s2 = (case todayEntry of
                                     None \<Rightarrow> s1
                                   | Some entry \<Rightarrow>
                                       snd (updateTimeEntry s1 (idE entry)
                                              (no_entry_updates
                                                 \<lparr>checkOutTime_u := Some (Some now),
                                                  hoursWorked_u := Some (Some (toString hours)),
                                                  billableHours_u := Some (Some (toString billable)),
                                                  pay_u := Some (Some (toString payment))\<rparr>)))
                         in (Json 200 updatedTeacher, s2))))
           | _ \<Rightarrow> (Message 400 ''Teacher not checked in'', s)))"

text \<open>
  \<^verbatim>\<open>GET /api/export/timesheet\<close>. The handler never reads \<^verbatim>\<open>req.query\<close>; the query is an
  argument here because the client sends one. \<open>getTime\<close> is
  \<^verbatim>\<open>new Date(_).getTime()\<close> on a date string.
\<close>

record ExportQuery =
  month :: "string option"
  year :: "string option"

record ExportRow =
  teacherName :: string
  dateR :: string
  checkInTimeR :: instant
  checkOutTimeR :: "instant option"
  hoursWorkedR :: "string option"
  billableHoursR :: "string option"
  hourlyRateR :: string
  payR :: "string option"

definition or_default :: "string option \<Rightarrow> string \<Rightarrow> string" where
  "or_default v dflt = (case v of None \<Rightarrow> dflt | Some x \<Rightarrow> if x = [] then dflt else x)"

definition export_row :: "Teacher list \<Rightarrow> TimeEntry \<Rightarrow> ExportRow" where
  "export_row ts entry =
     (let teacher = find (\<lambda>t. idT t = teacherId entry) ts
      in \<lparr>teacherName = or_default (map_option name teacher) ''Unknown'',
          dateR = date entry,
          checkInTimeR = checkInTime entry,
          checkOutTimeR = checkOutTime entry,
          hoursWorkedR = hoursWorked entry,
          billableHoursR = billableHours entry,
          hourlyRateR = or_default (map_option hourlyRate teacher) ''0'',
          payR = pay entry\<rparr>)"

definition export_timesheet ::
  "(string \<Rightarrow> int) \<Rightarrow> bool \<Rightarrow> ExportQuery \<Rightarrow> MemStorage \<Rightarrow> ExportRow list response" where
  "export_timesheet getTime isAdmin query s =
     (if isAdmin then
        Json 200
          (array_sort (\<lambda>a b. getTime (dateR b) - getTime (dateR a))
             (map (export_row (getTeachers s))
                (filter (\<lambda>entry. checkOutTime entry \<noteq> None) (getTimeEntries s))))
      else Message 403 ''Admin access required'')"

section \<open>Notions of the specification\<close>

text \<open>
  The open sessions of a teacher: the time entries that reference the teacher and have
  no check-out time.
\<close>

definition open_entries :: "MemStorage \<Rightarrow> string \<Rightarrow> TimeEntry list" where
  "open_entries s tid =
     filter (\<lambda>entry. teacherId entry = tid \<and> checkOutTime entry = None) (getTimeEntries s)"

text \<open>The status invariant of a teacher record: checked in exactly when a check-in time is set.\<close>

definition status_consistent :: "Teacher \<Rightarrow> bool" where
  "status_consistent t = (isCheckedIn t = (currentCheckInTime t \<noteq> None))"

definition store_status_consistent :: "MemStorage \<Rightarrow> bool" where
  "store_status_consistent s = list_all status_consistent (getTeachers s)"

text \<open>
  The session invariant behind ``one open entry per checked-in teacher, none otherwise'':
  a teacher who is not checked in (or does not exist) has no open entry; a checked-in
  teacher has exactly one, dated the day of the check-in. \<open>entry_keys_ok\<close>: every entry is
  stored under its own id. \<open>same_day_reachable\<close>: the stores reached from the empty one by
  creating teachers, check-ins and check-outs, with fresh ids, when every check-out falls on
  the UTC date of its check-in.
\<close>

definition entry_keys_ok :: "MemStorage \<Rightarrow> bool" where
  "entry_keys_ok s =
     (distinct (map fst (timeEntries s)) \<and> list_all (\<lambda>(k, entry). idE entry = k) (timeEntries s))"

definition session_ok :: "MemStorage \<Rightarrow> string \<Rightarrow> bool" where
  "session_ok s i =
     ((open_entries s i = [] \<and> (\<forall>t. getTeacher s i = Some t \<longrightarrow> \<not> isCheckedIn t))
      \<or> (\<exists>t checkIn entry. getTeacher s i = Some t \<and> isCheckedIn t
            \<and> currentCheckInTime t = Some checkIn
            \<and> open_entries s i = [entry] \<and> date entry = toISODate checkIn))"

definition sessions_ok :: "MemStorage \<Rightarrow> bool" where
  "sessions_ok s = (\<forall>i. session_ok s i)"

inductive same_day_reachable :: "MemStorage \<Rightarrow> bool" where
  start: "same_day_reachable constructor"
| create: "same_day_reachable s \<Longrightarrow> getTeacher s uuid = None \<Longrightarrow>
           same_day_reachable (snd (create_teacher isAdmin uuid s body))"
| check_in: "same_day_reachable s \<Longrightarrow> map_get (timeEntries s) uuid = None \<Longrightarrow>
           same_day_reachable (snd (checkin s i now uuid))"
| check_out: "same_day_reachable s \<Longrightarrow>
           (\<forall>t checkIn. getTeacher s i = Some t \<and> currentCheckInTime t = Some checkIn
                \<longrightarrow> toISODate now = toISODate checkIn) \<Longrightarrow>
           same_day_reachable (snd (checkout parseFloat toString s i now))"

text \<open>
  The period of an export query, from the specification's words (a filter by the month
  and/or year components of \<^verbatim>\<open>date\<close>): the year is the first four characters of a
  \<^verbatim>\<open>YYYY-MM-DD\<close> date, the month its sixth and seventh without a leading zero, as the
  client sends it (\<^verbatim>\<open>"1"\<close> to \<^verbatim>\<open>"12"\<close>). An absent component does not filter.
\<close>

definition date_in_period :: "ExportQuery \<Rightarrow> string \<Rightarrow> bool" where
  "date_in_period query d =
     ((case year query of None \<Rightarrow> True | Some y \<Rightarrow> take 4 d = y)
      \<and> (case month query of
            None \<Rightarrow> True
          | Some m \<Rightarrow> dropWhile (\<lambda>c. c = CHR ''0'') (take 2 (drop 5 d)) = m))"

section \<open>A worked session\<close>

text \<open>
  The first example of the specification: hourly rate 20.00, at most 8 billable hours,
  10 hours between check-in (2024-01-01 08:00 UTC) and check-out (18:00 UTC).
  \<open>parseFloat_ex\<close> and \<open>toString_ex\<close> are \<^verbatim>\<open>parseFloat\<close> and \<^verbatim>\<open>Number.prototype.toString\<close> on
  the values that occur.
\<close>

definition ada :: InsertTeacher where
  "ada = \<lparr>nameI = ''Ada'', hourlyRateI = ''20.00'', maxBillableHoursI = ''8''\<rparr>"

definition parseFloat_ex :: "string \<Rightarrow> rat" where
  "parseFloat_ex str = (if str = ''20.00'' then 20 else if str = ''8'' then 8 else 0)"

definition toString_ex :: "rat \<Rightarrow> string" where
  "toString_ex x =
     (if x = 10 then ''10'' else if x = 8 then ''8'' else if x = 160 then ''160''
      else if x = 1 then ''1'' else if x = 20 then ''20'' else ''0'')"

definition store_created :: MemStorage where
  "store_created = snd (create_teacher True ''t1'' constructor (Some ada))"

definition store_checked_in :: MemStorage where
  "store_checked_in = snd (checkin store_created ''t1'' 1704096000000 ''e1'')"

definition store_checked_out :: MemStorage where
  "store_checked_out =
     snd (checkout parseFloat_ex toString_ex store_checked_in ''t1'' 1704132000000)"

definition store_orphaned :: MemStorage where
  "store_orphaned = snd (delete_teacher True store_checked_out ''t1'')"

text \<open>
  A session over midnight UTC: check-in on 2024-01-01 at 23:30, check-out on 2024-01-02
  at 00:30, and a second check-in one minute later.
\<close>

definition store_late_checkin :: MemStorage where
  "store_late_checkin = snd (checkin store_created ''t1'' 1704151800000 ''e1'')"

definition store_next_day_checkout :: MemStorage where
  "store_next_day_checkout =
     snd (checkout parseFloat_ex toString_ex store_late_checkin ''t1'' 1704155400000)"

definition store_second_checkin :: MemStorage where
  "store_second_checkin = snd (checkin store_next_day_checkout ''t1'' 1704155460000 ''e2'')"

text \<open>A PIN set up once; \<open>hash_ex\<close> and \<open>compare_ex\<close> stand for a matching bcrypt pair.\<close>

definition hash_ex :: "string \<Rightarrow> string" where
  "hash_ex pin = ''$2a$10$'' @ pin"

definition compare_ex :: "string \<Rightarrow> string \<Rightarrow> bool" where
  "compare_ex pin h = (h = hash_ex pin)"

definition store_with_pin :: MemStorage where
  "store_with_pin = snd (setup_pin hash_ex ''s1'' constructor (Some ''1234''))"

text \<open>\<^verbatim>\<open>new Date(d).getTime()\<close> on the two dates of the sessions above.\<close>

definition getTime_ex :: "string \<Rightarrow> int" where
  "getTime_ex d =
     (if d = ''2024-01-01'' then 1704067200000
      else if d = ''2024-01-02'' then 1704153600000 else 0)"

section \<open>Evaluating the worked session\<close>

lemma date_0800: "toISODate 1704096000000 = ''2024-01-01''"
  by code_simp


lemma date_2330: "toISODate 1704151800000 = ''2024-01-01''"
  by code_simp

lemma date_0030: "toISODate 1704155400000 = ''2024-01-02''"
  by code_simp

lemma date_0031: "toISODate 1704155460000 = ''2024-01-02''"
  by code_simp

lemma store_created_eq:
  "store_created =
     \<lparr>teachers = [(''t1'', \<lparr>idT = ''t1'', name = ''Ada'', hourlyRate = ''20.00'',
                           maxBillableHours = ''8'', isCheckedIn = False,
                           currentCheckInTime = None\<rparr>)],
      timeEntries = [], appSettings = None\<rparr>"
  by code_simp

lemma store_checked_in_eq:
  "store_checked_in =
     \<lparr>teachers = [(''t1'', \<lparr>idT = ''t1'', name = ''Ada'', hourlyRate = ''20.00'',
                           maxBillableHours = ''8'', isCheckedIn = True,
                           currentCheckInTime = Some 1704096000000\<rparr>)],
      timeEntries = [(''e1'', \<lparr>idE = ''e1'', teacherId = ''t1'', date = ''2024-01-01'',
                              checkInTime = 1704096000000, checkOutTime = None,
                              hoursWorked = None, billableHours = None, pay = None\<rparr>)],
      appSettings = None\<rparr>"
  by code_simp

lemma store_checked_out_eq:
  "store_checked_out =
     \<lparr>teachers = [(''t1'', \<lparr>idT = ''t1'', name = ''Ada'', hourlyRate = ''20.00'',
                           maxBillableHours = ''8'', isCheckedIn = False,
                           currentCheckInTime = None\<rparr>)],
      timeEntries = [(''e1'', \<lparr>idE = ''e1'', teacherId = ''t1'', date = ''2024-01-01'',
                              checkInTime = 1704096000000, checkOutTime = Some 1704132000000,
                              hoursWorked = Some ''10'', billableHours = Some ''8'',
                              pay = Some ''160''\<rparr>)],
      appSettings = None\<rparr>"
  by code_simp

lemma store_orphaned_eq:
  "store_orphaned =
     \<lparr>teachers = [],
      timeEntries = [(''e1'', \<lparr>idE = ''e1'', teacherId = ''t1'', date = ''2024-01-01'',
                              checkInTime = 1704096000000, checkOutTime = Some 1704132000000,
                              hoursWorked = Some ''10'', billableHours = Some ''8'',
                              pay = Some ''160''\<rparr>)],
      appSettings = None\<rparr>"
  by code_simp

lemma store_late_checkin_eq:
  "store_late_checkin =
     \<lparr>teachers = [(''t1'', \<lparr>idT = ''t1'', name = ''Ada'', hourlyRate = ''20.00'',
                           maxBillableHours = ''8'', isCheckedIn = True,
                           currentCheckInTime = Some 1704151800000\<rparr>)],
      timeEntries = [(''e1'', \<lparr>idE = ''e1'', teacherId = ''t1'', date = ''2024-01-01'',
                              checkInTime = 1704151800000, checkOutTime = None,
                              hoursWorked = None, billableHours = None, pay = None\<rparr>)],
      appSettings = None\<rparr>"
  by code_simp

lemma store_next_day_checkout_eq:
  "store_next_day_checkout =
     \<lparr>teachers = [(''t1'', \<lparr>idT = ''t1'', name = ''Ada'', hourlyRate = ''20.00'',
                           maxBillableHours = ''8'', isCheckedIn = False,
                           currentCheckInTime = None\<rparr>)],
      timeEntries = [(''e1'', \<lparr>idE = ''e1'', teacherId = ''t1'', date = ''2024-01-01'',
                              checkInTime = 1704151800000, checkOutTime = None,
                              hoursWorked = None, billableHours = None, pay = None\<rparr>)],
      appSettings = None\<rparr>"
  by code_simp

lemma store_second_checkin_eq:
  "store_second_checkin =
     \<lparr>teachers = [(''t1'', \<lparr>idT = ''t1'', name = ''Ada'', hourlyRate = ''20.00'',
                           maxBillableHours = ''8'', isCheckedIn = True,
                           currentCheckInTime = Some 1704155460000\<rparr>)],
      timeEntries = [(''e1'', \<lparr>idE = ''e1'', teacherId = ''t1'', date = ''2024-01-01'',
                              checkInTime = 1704151800000, checkOutTime = None,
                              hoursWorked = None, billableHours = None, pay = None\<rparr>),
                     (''e2'', \<lparr>idE = ''e2'', teacherId = ''t1'', date = ''2024-01-02'',
                              checkInTime = 1704155460000, checkOutTime = None,
                              hoursWorked = None, billableHours = None, pay = None\<rparr>)],
      appSettings = None\<rparr>"
  by code_simp

lemma store_with_pin_eq:
  "store_with_pin =
     \<lparr>teachers = [], timeEntries = [],
      appSettings = Some \<lparr>idS = ''s1'', pinHash = ''$2a$10$1234''\<rparr>\<rparr>"
  by code_simp

section \<open>Facts about the built-ins and the storage\<close>

lemma map_get_set: "map_get (map_set k v m) j = (if j = k then Some v else map_get m j)"
  by (simp add: map_get_def map_set_def update_conv')

lemma map_get_delete: "map_get (map_delete k m) j = (if j = k then None else map_get m j)"
  by (simp add: map_get_def map_delete_def delete_conv')



lemma set_insort_cmp: "set (insort_cmp cmp x xs) = insert x (set xs)"
  by (induction xs) auto

lemma length_insort_cmp: "length (insort_cmp cmp x xs) = Suc (length xs)"
  by (induction xs) auto

lemma set_array_sort: "set (array_sort cmp xs) = set xs"
  by (induction xs) (simp_all add: array_sort_def set_insort_cmp)

lemma length_array_sort: "length (array_sort cmp xs) = length xs"
  by (induction xs) (simp_all add: array_sort_def length_insort_cmp)

lemma finalize_entry:
  "spread_entry e0
     (no_entry_updates\<lparr>checkOutTime_u := Some (Some now), hoursWorked_u := Some (Some h),
                        billableHours_u := Some (Some b), pay_u := Some (Some p)\<rparr>)
   = e0\<lparr>checkOutTime := Some now, hoursWorked := Some h, billableHours := Some b, pay := Some p\<rparr>"
  by (simp add: spread_entry_def spread_def no_entry_updates_def)

lemma check_out_teacher:
  "spread_teacher t
     (no_teacher_updates\<lparr>isCheckedIn_u := Some False, currentCheckInTime_u := Some None\<rparr>)
   = t\<lparr>isCheckedIn := False, currentCheckInTime := None\<rparr>"
  by (simp add: spread_teacher_def spread_def no_teacher_updates_def)

lemma check_in_teacher:
  "spread_teacher t
     (no_teacher_updates\<lparr>isCheckedIn_u := Some True, currentCheckInTime_u := Some (Some now)\<rparr>)
   = t\<lparr>isCheckedIn := True, currentCheckInTime := Some now\<rparr>"
  by (simp add: spread_teacher_def spread_def no_teacher_updates_def)

text \<open>What a check-out that passes both guards returns and leaves behind.\<close>

lemma checkout_success:
  assumes "getTeacher s i = Some teacher"
    and "isCheckedIn teacher"
    and "currentCheckInTime teacher = Some checkIn"
  shows "checkout parseFloat toString s i now =
     (Json 200 (Some (teacher\<lparr>isCheckedIn := False, currentCheckInTime := None\<rparr>)),
      (let hours = elapsed_hours now checkIn;
           billable = min hours (parseFloat (maxBillableHours teacher));
           payment = billable * parseFloat (hourlyRate teacher);
           s1 = s\<lparr>teachers :=
                    map_set i (teacher\<lparr>isCheckedIn := False, currentCheckInTime := None\<rparr>)
                      (teachers s)\<rparr>
       in case find (\<lambda>entry. date entry = toISODate now \<and> checkOutTime entry = None)
                 (getTimeEntriesByTeacher s i) of
            None \<Rightarrow> s1
          | Some entry \<Rightarrow>
              (case map_get (timeEntries s) (idE entry) of
                 None \<Rightarrow> s1
               | Some e0 \<Rightarrow>
                   s1\<lparr>timeEntries :=
                        map_set (idE entry)
                          (e0\<lparr>checkOutTime := Some now, hoursWorked := Some (toString hours),
                              billableHours := Some (toString billable),
                              pay := Some (toString payment)\<rparr>)
                          (timeEntries s)\<rparr>)))"
  using assms
  by (simp add: checkout_def updateTeacher_def getTeacher_def check_out_teacher Let_def
      getTimeEntriesByTeacher_def updateTimeEntry_def finalize_entry
      split: option.splits)

section \<open>Pay computation at check-out\<close>



section \<open>Rejected check-in and check-out\<close>

text \<open>
  C5. A check-in request for a teacher whose \<open>isCheckedIn\<close> is true is answered with
  status 400 (``Teacher already checked in'') and the storage is returned as it was:
  teachers, time entries and settings.
\<close>

theorem checkin_already_checked_in:
  assumes "getTeacher s i = Some teacher"
    and "isCheckedIn teacher"
  shows "checkin s i now uuid = (Message 400 ''Teacher already checked in'', s)"
  using assms by (simp add: checkin_def)

theorem checkin_already_checked_in_witness:
  "getTeacher store_checked_in ''t1''
     = Some \<lparr>idT = ''t1'', name = ''Ada'', hourlyRate = ''20.00'', maxBillableHours = ''8'',
             isCheckedIn = True, currentCheckInTime = Some 1704096000000\<rparr>
   \<and> checkin store_checked_in ''t1'' 1704099600000 ''e2''
     = (Message 400 ''Teacher already checked in'', store_checked_in)"
proof -
  let ?t = "\<lparr>idT = ''t1'', name = ''Ada'', hourlyRate = ''20.00'', maxBillableHours = ''8'',
             isCheckedIn = True, currentCheckInTime = Some 1704096000000\<rparr>"
  have t: "getTeacher store_checked_in ''t1'' = Some ?t"
    by (simp add: store_checked_in_eq getTeacher_def map_get_def)
  have c: "isCheckedIn ?t"
    by simp
  from checkin_already_checked_in [OF t c, of 1704099600000 "''e2''"] t
  show ?thesis by (rule_tac conjI)
qed

text \<open>
  C6. A check-out request for a teacher whose \<open>isCheckedIn\<close> is false or whose
  \<open>currentCheckInTime\<close> is null is answered with status 400 (``Teacher not checked in'')
  and the storage is returned as it was.
\<close>

theorem checkout_not_checked_in:
  assumes "getTeacher s i = Some teacher"
    and "\<not> isCheckedIn teacher \<or> currentCheckInTime teacher = None"
  shows "checkout parseFloat toString s i now = (Message 400 ''Teacher not checked in'', s)"
  using assms by (auto simp: checkout_def split: option.splits bool.splits)

theorem checkout_not_checked_in_witness:
  "getTeacher store_created ''t1''
     = Some \<lparr>idT = ''t1'', name = ''Ada'', hourlyRate = ''20.00'', maxBillableHours = ''8'',
             isCheckedIn = False, currentCheckInTime = None\<rparr>
   \<and> checkout parseFloat_ex toString_ex store_created ''t1'' 1704096000000
     = (Message 400 ''Teacher not checked in'', store_created)"
proof -
  let ?t = "\<lparr>idT = ''t1'', name = ''Ada'', hourlyRate = ''20.00'', maxBillableHours = ''8'',
             isCheckedIn = False, currentCheckInTime = None\<rparr>"
  have t: "getTeacher store_created ''t1'' = Some ?t"
    by (simp add: store_created_eq getTeacher_def map_get_def)
  have c: "\<not> isCheckedIn ?t \<or> currentCheckInTime ?t = None"
    by simp
  from checkout_not_checked_in [OF t c, of parseFloat_ex toString_ex 1704096000000] t
  show ?thesis by (rule_tac conjI)
qed

section \<open>Check-out without an open entry of today\<close>

text \<open>
  C7. When a checked-in teacher checks out and no time entry of that teacher has today's
  date and a null check-out time, the request succeeds with the teacher set to
  \<open>isCheckedIn = false\<close>, \<open>currentCheckInTime = null\<close>, and the time entries are left
  exactly as they were.
\<close>

theorem checkout_without_open_entry:
  assumes "getTeacher s i = Some teacher"
    and "isCheckedIn teacher"
    and "currentCheckInTime teacher = Some checkIn"
    and "\<not> (\<exists>entry \<in> set (getTimeEntries s).
              teacherId entry = i \<and> date entry = toISODate now \<and> checkOutTime entry = None)"
  shows "fst (checkout parseFloat toString s i now)
           = Json 200 (Some (teacher\<lparr>isCheckedIn := False, currentCheckInTime := None\<rparr>))
         \<and> getTeacher (snd (checkout parseFloat toString s i now)) i
           = Some (teacher\<lparr>isCheckedIn := False, currentCheckInTime := None\<rparr>)
         \<and> timeEntries (snd (checkout parseFloat toString s i now)) = timeEntries s"
proof -
  have nf: "find (\<lambda>entry. date entry = toISODate now \<and> checkOutTime entry = None)
              (getTimeEntriesByTeacher s i) = None"
    using assms(4)
    by (auto simp: find_None_iff getTimeEntriesByTeacher_def getTimeEntries_def)
  show ?thesis
    by (simp add: checkout_success [OF assms(1,2,3)] nf getTeacher_def map_get_set)
qed

theorem checkout_without_open_entry_witness:
  "fst (checkout parseFloat_ex toString_ex store_late_checkin ''t1'' 1704155400000)
     = Json 200 (Some \<lparr>idT = ''t1'', name = ''Ada'', hourlyRate = ''20.00'',
                       maxBillableHours = ''8'', isCheckedIn = False,
                       currentCheckInTime = None\<rparr>)
   \<and> timeEntries (snd (checkout parseFloat_ex toString_ex store_late_checkin ''t1'' 1704155400000))
     = [(''e1'', \<lparr>idE = ''e1'', teacherId = ''t1'', date = ''2024-01-01'',
                  checkInTime = 1704151800000, checkOutTime = None,
                  hoursWorked = None, billableHours = None, pay = None\<rparr>)]"
proof -
  let ?t = "\<lparr>idT = ''t1'', name = ''Ada'', hourlyRate = ''20.00'', maxBillableHours = ''8'',
             isCheckedIn = True, currentCheckInTime = Some 1704151800000\<rparr>"
  have t: "getTeacher store_late_checkin ''t1'' = Some ?t"
    by (simp add: store_late_checkin_eq getTeacher_def map_get_def)
  have c: "isCheckedIn ?t" and ci: "currentCheckInTime ?t = Some 1704151800000"
    by simp_all
  have none: "\<not> (\<exists>entry \<in> set (getTimeEntries store_late_checkin).
              teacherId entry = ''t1'' \<and> date entry = toISODate 1704155400000
              \<and> checkOutTime entry = None)"
    by (simp add: store_late_checkin_eq getTimeEntries_def map_values_def date_0030)
  have old: "timeEntries store_late_checkin
     = [(''e1'', \<lparr>idE = ''e1'', teacherId = ''t1'', date = ''2024-01-01'',
                  checkInTime = 1704151800000, checkOutTime = None,
                  hoursWorked = None, billableHours = None, pay = None\<rparr>)]"
    by (simp add: store_late_checkin_eq)
  from checkout_without_open_entry [OF t c ci none, of parseFloat_ex toString_ex] old
  show ?thesis by simp
qed

section \<open>Deleting a teacher\<close>

text \<open>
  C8. Deleting a teacher, at the storage and through the admin request, leaves every time
  entry in the store as it was, those that reference the deleted teacher included; the
  settings and the other teachers stay, and the teacher itself is gone.
\<close>

theorem delete_teacher_no_cascade:
  "timeEntries (snd (deleteTeacher s i)) = timeEntries s
   \<and> timeEntries (snd (delete_teacher isAdmin s i)) = timeEntries s
   \<and> appSettings (snd (delete_teacher isAdmin s i)) = appSettings s
   \<and> getTeacher (snd (delete_teacher True s i)) i = None
   \<and> (\<forall>j. j \<noteq> i \<longrightarrow> getTeacher (snd (delete_teacher isAdmin s i)) j = getTeacher s j)"
  by (auto simp: delete_teacher_def deleteTeacher_def getTeacher_def map_get_delete
      split: bool.splits)

theorem delete_teacher_no_cascade_witness:
  "getTimeEntriesByTeacher store_orphaned ''t1''
     = [\<lparr>idE = ''e1'', teacherId = ''t1'', date = ''2024-01-01'',
         checkInTime = 1704096000000, checkOutTime = Some 1704132000000,
         hoursWorked = Some ''10'', billableHours = Some ''8'', pay = Some ''160''\<rparr>]
   \<and> getTeacher store_orphaned ''t1'' = None
   \<and> getTeacher store_orphaned ''t2'' = getTeacher store_checked_out ''t2''"
proof -
  have dt: "snd (delete_teacher True store_checked_out ''t1'') = store_orphaned"
    by (simp add: store_orphaned_def)
  note th = delete_teacher_no_cascade [of store_checked_out "''t1''" True, unfolded dt]
  have entries: "timeEntries store_orphaned = timeEntries store_checked_out"
    by (rule th [THEN conjunct2, THEN conjunct1])
  have gone: "getTeacher store_orphaned ''t1'' = None"
    by (rule th [THEN conjunct2, THEN conjunct2, THEN conjunct2, THEN conjunct1])
  have others: "''t2'' \<noteq> ''t1'' \<longrightarrow>
      getTeacher store_orphaned ''t2'' = getTeacher store_checked_out ''t2''"
    by (rule th [THEN conjunct2, THEN conjunct2, THEN conjunct2, THEN conjunct2, THEN spec])
  have ne: "''t2'' \<noteq> ''t1''"
    by simp
  have other: "getTeacher store_orphaned ''t2'' = getTeacher store_checked_out ''t2''"
    using others ne by (rule mp)
  have mine: "getTimeEntriesByTeacher store_orphaned ''t1''
     = [\<lparr>idE = ''e1'', teacherId = ''t1'', date = ''2024-01-01'',
         checkInTime = 1704096000000, checkOutTime = Some 1704132000000,
         hoursWorked = Some ''10'', billableHours = Some ''8'', pay = Some ''160''\<rparr>]"
    by (simp add: getTimeEntriesByTeacher_def map_values_def entries store_checked_out_eq)
  from mine gone other show ?thesis
    by (intro conjI)
qed

section \<open>PIN set-up\<close>

text \<open>
  C9. When app settings exist, a PIN set-up request is answered with status 400 (``PIN
  already set up'', or ``Invalid PIN format'' when the body fails the schema), the storage
  and so the stored \<open>pinHash\<close> are as before, and every PIN validates afterwards exactly as
  it did before: the first PIN stays valid.
\<close>

theorem setup_pin_again_rejected:
  assumes "getAppSettings s = Some settings"
  shows "fst (setup_pin hash uuid s body) \<in>
           {Message 400 ''PIN already set up'', Message 400 ''Invalid PIN format''}
         \<and> snd (setup_pin hash uuid s body) = s
         \<and> getAppSettings (snd (setup_pin hash uuid s body)) = Some settings
         \<and> validatePin compare (snd (setup_pin hash uuid s body)) pin = validatePin compare s pin"
  using assms by (auto simp: setup_pin_def split: option.splits)

theorem setup_pin_again_rejected_witness:
  "getAppSettings store_with_pin = Some \<lparr>idS = ''s1'', pinHash = ''$2a$10$1234''\<rparr>
   \<and> fst (setup_pin hash_ex ''s2'' store_with_pin (Some ''9999''))
       \<in> {Message 400 ''PIN already set up'', Message 400 ''Invalid PIN format''}
   \<and> getAppSettings (snd (setup_pin hash_ex ''s2'' store_with_pin (Some ''9999'')))
       = Some \<lparr>idS = ''s1'', pinHash = ''$2a$10$1234''\<rparr>
   \<and> validatePin compare_ex (snd (setup_pin hash_ex ''s2'' store_with_pin (Some ''9999''))) ''1234''"
proof -
  have st: "getAppSettings store_with_pin = Some \<lparr>idS = ''s1'', pinHash = ''$2a$10$1234''\<rparr>"
    by (simp add: store_with_pin_eq getAppSettings_def)
  have valid: "validatePin compare_ex store_with_pin ''1234''"
    by (simp add: store_with_pin_eq validatePin_def compare_ex_def hash_ex_def)
  from setup_pin_again_rejected [OF st, of hash_ex "''s2''" "Some ''9999''" compare_ex "''1234''"]
    st valid
  show ?thesis by simp
qed

section \<open>Timesheet export\<close>

text \<open>
  C10. A completed time entry whose \<open>teacherId\<close> is the id of no teacher in the store has
  its row in the export, with teacher name ``Unknown'' and hourly rate ``0'' and the
  entry's own fields; the export has one row for every completed entry, so none is
  dropped.
\<close>

theorem export_keeps_orphan_entries:
  assumes "entry \<in> set (getTimeEntries s)"
    and "checkOutTime entry \<noteq> None"
    and "\<not> (\<exists>t \<in> set (getTeachers s). idT t = teacherId entry)"
  shows "\<exists>rows. export_timesheet getTime True query s = Json 200 rows
           \<and> \<lparr>teacherName = ''Unknown'', dateR = date entry, checkInTimeR = checkInTime entry,
               checkOutTimeR = checkOutTime entry, hoursWorkedR = hoursWorked entry,
               billableHoursR = billableHours entry, hourlyRateR = ''0'', payR = pay entry\<rparr>
             \<in> set rows
           \<and> length rows = length (filter (\<lambda>e. checkOutTime e \<noteq> None) (getTimeEntries s))"
proof -
  have nf: "find (\<lambda>t. idT t = teacherId entry) (getTeachers s) = None"
    using assms(3) by (auto simp: find_None_iff)
  have row: "export_row (getTeachers s) entry =
      \<lparr>teacherName = ''Unknown'', dateR = date entry, checkInTimeR = checkInTime entry,
               checkOutTimeR = checkOutTime entry, hoursWorkedR = hoursWorked entry,
               billableHoursR = billableHours entry, hourlyRateR = ''0'', payR = pay entry\<rparr>"
    by (simp add: export_row_def nf or_default_def)
  show ?thesis
    using assms(1,2) row
    by (auto simp: export_timesheet_def set_array_sort length_array_sort image_iff
        intro!: bexI[of _ entry])
qed

theorem export_keeps_orphan_entries_witness:
  "\<exists>rows. export_timesheet getTime_ex True \<lparr>month = None, year = None\<rparr> store_orphaned
            = Json 200 rows
     \<and> \<lparr>teacherName = ''Unknown'', dateR = ''2024-01-01'', checkInTimeR = 1704096000000,
         checkOutTimeR = Some 1704132000000, hoursWorkedR = Some ''10'',
         billableHoursR = Some ''8'', hourlyRateR = ''0'', payR = Some ''160''\<rparr> \<in> set rows
     \<and> length rows = 1"
proof -
  let ?e = "\<lparr>idE = ''e1'', teacherId = ''t1'', date = ''2024-01-01'',
         checkInTime = 1704096000000, checkOutTime = Some 1704132000000,
         hoursWorked = Some ''10'', billableHours = Some ''8'', pay = Some ''160''\<rparr>"
  have entries: "getTimeEntries store_orphaned = [?e]"
    by (simp add: store_orphaned_eq getTimeEntries_def map_values_def)
  have e: "?e \<in> set (getTimeEntries store_orphaned)"
    by (simp add: entries)
  have c: "checkOutTime ?e \<noteq> None"
    by simp
  have orphan: "\<not> (\<exists>t \<in> set (getTeachers store_orphaned). idT t = teacherId ?e)"
    by (simp add: store_orphaned_eq getTeachers_def map_values_def)
  from export_keeps_orphan_entries [OF e c orphan, of getTime_ex "\<lparr>month = None, year = None\<rparr>"]
  show ?thesis
    by (simp add: entries)
qed

text \<open>
  The export holds only completed entries and is in descending order of date, whatever
  the query.
\<close>

lemma insort_cmp_descending:
  assumes "sorted_wrt (\<lambda>a b. key b \<le> key a) xs"
  shows "sorted_wrt (\<lambda>a b. key b \<le> key a) (insort_cmp (\<lambda>a b. key b - key a) x xs)"
  using assms by (induction xs) (auto simp: set_insort_cmp)

lemma array_sort_descending:
  "sorted_wrt (\<lambda>a b. key b \<le> (key a :: int)) (array_sort (\<lambda>a b. key b - key a) xs)"
  by (induction xs) (simp_all add: array_sort_def insort_cmp_descending)

lemma export_sorted_descending:
  assumes "export_timesheet getTime isAdmin query s = Json 200 rows"
  shows "sorted_wrt (\<lambda>a b. getTime (dateR b) \<le> getTime (dateR a)) rows"
    and "list_all (\<lambda>row. checkOutTimeR row \<noteq> None) rows"
proof -
  have rows: "rows = array_sort (\<lambda>a b. getTime (dateR b) - getTime (dateR a))
             (map (export_row (getTeachers s))
                (filter (\<lambda>entry. checkOutTime entry \<noteq> None) (getTimeEntries s)))"
    using assms by (simp add: export_timesheet_def split: if_splits)
  show "sorted_wrt (\<lambda>a b. getTime (dateR b) \<le> getTime (dateR a)) rows"
    unfolding rows by (rule array_sort_descending [of "\<lambda>r. getTime (dateR r)"])
  show "list_all (\<lambda>row. checkOutTimeR row \<noteq> None) rows"
    unfolding rows by (auto simp: list_all_iff set_array_sort export_row_def Let_def)
qed

text \<open>
  C4. The specification says that an export with a month and/or year holds only entries of that
  period. The handler does not read the query: asked for February 2024, the export of the
  worked session returns its entry of 2024-01-01, which is outside that period (and inside
  January 2024).
\<close>

theorem export_ignores_month_and_year:
  "export_timesheet getTime_ex True \<lparr>month = Some ''2'', year = Some ''2024''\<rparr> store_checked_out
     = Json 200 [\<lparr>teacherName = ''Ada'', dateR = ''2024-01-01'', checkInTimeR = 1704096000000,
                  checkOutTimeR = Some 1704132000000, hoursWorkedR = Some ''10'',
                  billableHoursR = Some ''8'', hourlyRateR = ''20.00'', payR = Some ''160''\<rparr>]
   \<and> \<not> date_in_period \<lparr>month = Some ''2'', year = Some ''2024''\<rparr> ''2024-01-01''
   \<and> date_in_period \<lparr>month = Some ''1'', year = Some ''2024''\<rparr> ''2024-01-01''"
  by (simp add: store_checked_out_eq export_timesheet_def getTeachers_def getTimeEntries_def
        map_values_def array_sort_def export_row_def or_default_def date_in_period_def)

section \<open>The status invariant of a teacher\<close>

text \<open>
  Creating a teacher, check-in and check-out keep every teacher record consistent
  (\<open>isCheckedIn\<close> exactly when \<open>currentCheckInTime\<close> is set), and so does a partial update
  that carries neither of the two keys.
\<close>

lemma list_all_map_set:
  "P v \<Longrightarrow> list_all P (map_values m) \<Longrightarrow> list_all P (map_values (map_set k v m))"
  unfolding map_set_def map_values_def by (induction m) auto

lemma create_teacher_status:
  assumes "store_status_consistent s"
  shows "store_status_consistent (snd (create_teacher isAdmin uuid s body))"
  using assms
  by (auto simp: create_teacher_def createTeacher_def store_status_consistent_def getTeachers_def
      status_consistent_def Let_def intro!: list_all_map_set split: option.splits)

lemma checkin_status:
  assumes "store_status_consistent s"
  shows "store_status_consistent (snd (checkin s i now uuid))"
  using assms
  by (auto simp: checkin_def updateTeacher_def createTimeEntry_def getTeacher_def
      store_status_consistent_def getTeachers_def check_in_teacher
      status_consistent_def Let_def intro!: list_all_map_set split: option.splits)

lemma checkout_status:
  assumes "store_status_consistent s"
  shows "store_status_consistent (snd (checkout parseFloat toString s i now))"
  using assms
  by (auto simp: checkout_def updateTeacher_def updateTimeEntry_def getTeacher_def
      store_status_consistent_def getTeachers_def check_out_teacher
      status_consistent_def Let_def intro!: list_all_map_set split: option.splits bool.splits)

lemma patch_teacher_status:
  assumes "store_status_consistent s"
    and "isCheckedIn_u updates = None"
    and "currentCheckInTime_u updates = None"
  shows "store_status_consistent (snd (patch_teacher isAdmin s i updates))"
proof (cases "isAdmin \<and> map_get (teachers s) i \<noteq> None")
  case False
  then show ?thesis
    using assms(1) by (auto simp: patch_teacher_def updateTeacher_def)
next
  case True
  then obtain t where t: "map_get (teachers s) i = Some t"
    by auto
  have "status_consistent t"
    using assms(1) t
    by (auto simp: store_status_consistent_def getTeachers_def map_values_def map_get_def
        list_all_iff dest!: map_of_SomeD)
  then have "status_consistent (spread_teacher t updates)"
    using assms(2,3) by (simp add: status_consistent_def spread_teacher_def spread_def)
  then show ?thesis
    using True t assms(1)
    by (auto simp: patch_teacher_def updateTeacher_def store_status_consistent_def
        getTeachers_def Let_def intro!: list_all_map_set)
qed

text \<open>
  C3. The specification says that after every mutation, the admin partial update included,
  \<open>isCheckedIn\<close> is true exactly when \<open>currentCheckInTime\<close> is not null. The update handler
  passes the body to the storage as it came: the body \<^verbatim>\<open>{ "isCheckedIn": true }\<close> on a
  teacher who is not checked in leaves \<open>isCheckedIn = true\<close> with
  \<open>currentCheckInTime = null\<close>.
\<close>

theorem patch_sets_status_without_check_in_time:
  "getTeacher store_created ''t1''
     = Some \<lparr>idT = ''t1'', name = ''Ada'', hourlyRate = ''20.00'', maxBillableHours = ''8'',
             isCheckedIn = False, currentCheckInTime = None\<rparr>
   \<and> patch_teacher True store_created ''t1'' (no_teacher_updates\<lparr>isCheckedIn_u := Some True\<rparr>)
     = (Json 200 \<lparr>idT = ''t1'', name = ''Ada'', hourlyRate = ''20.00'', maxBillableHours = ''8'',
                  isCheckedIn = True, currentCheckInTime = None\<rparr>,
        \<lparr>teachers = [(''t1'', \<lparr>idT = ''t1'', name = ''Ada'', hourlyRate = ''20.00'',
                              maxBillableHours = ''8'', isCheckedIn = True,
                              currentCheckInTime = None\<rparr>)],
         timeEntries = [], appSettings = None\<rparr>)"
  by (simp add: store_created_eq patch_teacher_def updateTeacher_def getTeacher_def map_get_def
        map_set_def spread_teacher_def spread_def no_teacher_updates_def Let_def)

section \<open>Open sessions\<close>

text \<open>
  C2. The specification says that after any sequence of check-ins and check-outs a teacher has at
  most one time entry without check-out time, and none when not checked in. Check-out
  looks for the open entry among those dated today: after a check-in at 23:30 UTC and a
  check-out at 00:30 UTC the next day the teacher is checked out and the entry
  \<^verbatim>\<open>e1\<close> is still open, and the next check-in opens a second one.
\<close>

theorem overnight_session_leaves_open_entries:
  "store_second_checkin
     = snd (checkin
             (snd (checkout parseFloat_ex toString_ex
                    (snd (checkin
                           (snd (create_teacher True ''t1'' constructor (Some ada)))
                           ''t1'' 1704151800000 ''e1''))
                    ''t1'' 1704155400000))
             ''t1'' 1704155460000 ''e2'')
   \<and> map_option isCheckedIn (getTeacher store_next_day_checkout ''t1'') = Some False
   \<and> map idE (open_entries store_next_day_checkout ''t1'') = [''e1'']
   \<and> map idE (open_entries store_second_checkin ''t1'') = [''e1'', ''e2'']"
proof -
  have run: "store_second_checkin
     = snd (checkin
             (snd (checkout parseFloat_ex toString_ex
                    (snd (checkin
                           (snd (create_teacher True ''t1'' constructor (Some ada)))
                           ''t1'' 1704151800000 ''e1''))
                    ''t1'' 1704155400000))
             ''t1'' 1704155460000 ''e2'')"
    by (simp only: store_second_checkin_def store_next_day_checkout_def store_late_checkin_def
          store_created_def)
  have out: "map_option isCheckedIn (getTeacher store_next_day_checkout ''t1'') = Some False"
    by (simp add: store_next_day_checkout_eq getTeacher_def map_get_def)
  have one: "map idE (open_entries store_next_day_checkout ''t1'') = [''e1'']"
    by (simp add: store_next_day_checkout_eq open_entries_def getTimeEntries_def map_values_def)
  have two: "map idE (open_entries store_second_checkin ''t1'') = [''e1'', ''e2'']"
    by (simp add: store_second_checkin_eq open_entries_def getTimeEntries_def map_values_def)
  from run out one two show ?thesis
    by (intro conjI)
qed

text \<open>
  What does hold: as long as every check-out falls on the UTC date of its check-in, each
  teacher has at most one open entry, and has one exactly when checked in.
\<close>

lemma map_set_fresh: "map_get m k = None \<Longrightarrow> map_set k v m = m @ [(k, v)]"
  unfolding map_set_def map_get_def by (induction m) (auto split: if_splits)

lemma map_set_present:
  "distinct (map fst m) \<Longrightarrow> (k, v0) \<in> set m \<Longrightarrow>
   map_set k v m = map (\<lambda>p. if fst p = k then (k, v) else p) m"
  unfolding map_set_def
proof (induction m)
  case Nil
  then show ?case by simp
next
  case (Cons p m)
  show ?case
  proof (cases "fst p = k")
    case True
    then have "k \<notin> fst ` set m"
      using Cons.prems(1) by auto
    then have "map (\<lambda>p. if fst p = k then (k, v) else p) m = m"
      by (induction m) auto
    with True show ?thesis by simp
  next
    case False
    then show ?thesis
      using Cons by auto
  qed
qed

lemma distinct_map_set: "distinct (map fst m) \<Longrightarrow> distinct (map fst (map_set k v m))"
  unfolding map_set_def by (rule distinct_update)

lemma find_filter_Cons: "filter P xs = x # ys \<Longrightarrow> find P xs = Some x"
  by (induction xs) (auto split: if_splits)

lemma entry_keys_unique:
  assumes "entry_keys_ok s" and "x \<in> set (getTimeEntries s)" and "y \<in> set (getTimeEntries s)"
    and "idE x = idE y"
  shows "x = y"
proof -
  from assms(1,2) have x: "(idE x, x) \<in> set (timeEntries s)"
    by (auto simp: entry_keys_ok_def getTimeEntries_def map_values_def list_all_iff)
  from assms(1,3) have y: "(idE y, y) \<in> set (timeEntries s)"
    by (auto simp: entry_keys_ok_def getTimeEntries_def map_values_def list_all_iff)
  from assms(1) have "distinct (map fst (timeEntries s))"
    by (simp add: entry_keys_ok_def)
  with x y assms(4) show ?thesis
    by (metis map_of_is_SomeI option.inject)
qed

lemma entry_keys_lookup:
  assumes "entry_keys_ok s" and "x \<in> set (getTimeEntries s)"
  shows "map_get (timeEntries s) (idE x) = Some x" and "(idE x, x) \<in> set (timeEntries s)"
proof -
  from assms show x: "(idE x, x) \<in> set (timeEntries s)"
    by (auto simp: entry_keys_ok_def getTimeEntries_def map_values_def list_all_iff)
  from assms(1) have "distinct (map fst (timeEntries s))"
    by (simp add: entry_keys_ok_def)
  with x show "map_get (timeEntries s) (idE x) = Some x"
    by (simp add: map_get_def)
qed

lemma create_teacher_unfold:
  "snd (create_teacher isAdmin uuid s body) = s
   \<or> (\<exists>t. \<not> isCheckedIn t
          \<and> snd (create_teacher isAdmin uuid s body) = s\<lparr>teachers := map_set uuid t (teachers s)\<rparr>)"
proof (cases "isAdmin \<and> body \<noteq> None")
  case False
  then show ?thesis
    by (auto simp: create_teacher_def)
next
  case True
  then obtain d where d: "body = Some d"
    by auto
  let ?t = "\<lparr>idT = uuid, name = nameI d, hourlyRate = hourlyRateI d,
             maxBillableHours = maxBillableHoursI d,
             isCheckedIn = False, currentCheckInTime = None\<rparr>"
  have "\<not> isCheckedIn ?t"
    by simp
  moreover have "snd (create_teacher isAdmin uuid s body)
      = s\<lparr>teachers := map_set uuid ?t (teachers s)\<rparr>"
    using True d by (simp add: create_teacher_def createTeacher_def Let_def)
  ultimately show ?thesis
    by blast
qed

lemma checkin_unfold:
  assumes "map_get (timeEntries s) uuid = None"
  shows "snd (checkin s i now uuid) = s
   \<or> (\<exists>t. getTeacher s i = Some t \<and> \<not> isCheckedIn t
          \<and> snd (checkin s i now uuid)
            = s\<lparr>teachers :=
                   map_set i (t\<lparr>isCheckedIn := True, currentCheckInTime := Some now\<rparr>) (teachers s),
                 timeEntries :=
                   timeEntries s @
                   [(uuid, \<lparr>idE = uuid, teacherId = i, date = toISODate now, checkInTime = now,
                            checkOutTime = None, hoursWorked = None, billableHours = None,
                            pay = None\<rparr>)]\<rparr>)"
  using assms
  by (auto simp: checkin_def updateTeacher_def createTimeEntry_def getTeacher_def Let_def
      check_in_teacher map_set_fresh split: option.splits)

lemma open_entries_teachers [simp]: "open_entries (s\<lparr>teachers := ts\<rparr>) i = open_entries s i"
  by (simp add: open_entries_def getTimeEntries_def)

lemma open_entries_append:
  "open_entries (s\<lparr>timeEntries := timeEntries s @ [(k, entry)]\<rparr>) i
     = open_entries s i @ (if teacherId entry = i \<and> checkOutTime entry = None then [entry] else [])"
  by (simp add: open_entries_def getTimeEntries_def map_values_def)

lemma getTeacher_timeEntries [simp]: "getTeacher (s\<lparr>timeEntries := es\<rparr>) i = getTeacher s i"
  by (simp add: getTeacher_def)

lemma getTeacher_teachers_set [simp]:
  "getTeacher (s\<lparr>teachers := map_set k v (teachers s)\<rparr>) i
     = (if i = k then Some v else getTeacher s i)"
  by (simp add: getTeacher_def map_get_set)

lemma entry_keys_ok_teachers [simp]: "entry_keys_ok (s\<lparr>teachers := ts\<rparr>) = entry_keys_ok s"
  by (simp add: entry_keys_ok_def)

lemma create_teacher_session:
  assumes "sessions_ok s" and "getTeacher s uuid = None"
  shows "sessions_ok (snd (create_teacher isAdmin uuid s body))"
proof -
  have all: "session_ok s j" for j
    using assms(1) by (simp add: sessions_ok_def)
  have none: "open_entries s uuid = []"
    using all [of uuid] assms(2) by (auto simp: session_ok_def)
  from create_teacher_unfold [of isAdmin uuid s body] show ?thesis
  proof (elim disjE exE conjE)
    assume "snd (create_teacher isAdmin uuid s body) = s"
    with assms(1) show ?thesis by simp
  next
    fix t
    assume t: "\<not> isCheckedIn t"
      and eq: "snd (create_teacher isAdmin uuid s body) = s\<lparr>teachers := map_set uuid t (teachers s)\<rparr>"
    have "session_ok (s\<lparr>teachers := map_set uuid t (teachers s)\<rparr>) j" for j
      using all [of j] none t by (cases "j = uuid") (auto simp: session_ok_def)
    then show ?thesis
      by (simp add: eq sessions_ok_def)
  qed
qed

lemma create_teacher_keys:
  "entry_keys_ok s \<Longrightarrow> entry_keys_ok (snd (create_teacher isAdmin uuid s body))"
  using create_teacher_unfold [of isAdmin uuid s body] by auto

lemma checkin_session:
  assumes "sessions_ok s" and "map_get (timeEntries s) uuid = None"
  shows "sessions_ok (snd (checkin s i now uuid))"
proof -
  have all: "session_ok s j" for j
    using assms(1) by (simp add: sessions_ok_def)
  from checkin_unfold [OF assms(2), of i now] show ?thesis
  proof (elim disjE exE conjE)
    assume "snd (checkin s i now uuid) = s"
    with assms(1) show ?thesis by simp
  next
    fix t
    assume t: "getTeacher s i = Some t" "\<not> isCheckedIn t"
      and eq: "snd (checkin s i now uuid)
            = s\<lparr>teachers :=
                   map_set i (t\<lparr>isCheckedIn := True, currentCheckInTime := Some now\<rparr>) (teachers s),
                 timeEntries :=
                   timeEntries s @
                   [(uuid, \<lparr>idE = uuid, teacherId = i, date = toISODate now, checkInTime = now,
                            checkOutTime = None, hoursWorked = None, billableHours = None,
                            pay = None\<rparr>)]\<rparr>"
    have none: "open_entries s i = []"
      using all [of i] t by (auto simp: session_ok_def)
    have "session_ok (snd (checkin s i now uuid)) j" for j
      using all [of j] none t
      by (cases "j = i")
         (auto simp: eq session_ok_def open_entries_def getTimeEntries_def map_values_def
            getTeacher_def map_get_set)
    then show ?thesis
      by (simp add: sessions_ok_def)
  qed
qed

lemma checkin_keys:
  assumes "entry_keys_ok s" and "map_get (timeEntries s) uuid = None"
  shows "entry_keys_ok (snd (checkin s i now uuid))"
proof -
  have "uuid \<notin> fst ` set (timeEntries s)"
    using assms(2) by (simp add: map_get_def map_of_eq_None_iff)
  with assms(1) checkin_unfold [OF assms(2), of i now] show ?thesis
    by (auto simp: entry_keys_ok_def)
qed

lemma map_fst_replace:
  "map fst (map (\<lambda>p. if fst p = k then (k, v) else p) m) = map fst m"
  by (induction m) auto

lemma checkout_failure:
  assumes "\<not> (\<exists>t checkIn. getTeacher s i = Some t \<and> isCheckedIn t
               \<and> currentCheckInTime t = Some checkIn)"
  shows "snd (checkout parseFloat toString s i now) = s"
  using assms by (auto simp: checkout_def split: option.splits bool.splits)

lemma checkout_same_day:
  assumes ok: "session_ok s i" and keys: "entry_keys_ok s"
    and t: "getTeacher s i = Some t" "isCheckedIn t" "currentCheckInTime t = Some checkIn"
    and day: "toISODate now = toISODate checkIn"
  shows "\<exists>entry entry'. open_entries s i = [entry] \<and> idE entry' = idE entry
           \<and> checkOutTime entry' \<noteq> None
           \<and> snd (checkout parseFloat toString s i now)
             = s\<lparr>teachers :=
                    map_set i (t\<lparr>isCheckedIn := False, currentCheckInTime := None\<rparr>) (teachers s),
                  timeEntries :=
                    map (\<lambda>p. if fst p = idE entry then (idE entry, entry') else p) (timeEntries s)\<rparr>"
proof -
  from ok t obtain entry where entry: "open_entries s i = [entry]" "date entry = toISODate checkIn"
    by (auto simp: session_ok_def)
  have "filter (\<lambda>x. date x = toISODate now \<and> checkOutTime x = None) (getTimeEntriesByTeacher s i)
          = filter (\<lambda>x. date x = toISODate now) (open_entries s i)"
    by (auto simp: getTimeEntriesByTeacher_def open_entries_def getTimeEntries_def
        intro: filter_cong)
  also have "\<dots> = [entry]"
    using entry day by simp
  finally have found: "find (\<lambda>x. date x = toISODate now \<and> checkOutTime x = None)
                         (getTimeEntriesByTeacher s i) = Some entry"
    by (rule find_filter_Cons)
  have "entry \<in> set (open_entries s i)"
    using entry by simp
  then have mem: "entry \<in> set (getTimeEntries s)"
    by (simp add: open_entries_def)
  note look = entry_keys_lookup [OF keys mem]
  have dist: "distinct (map fst (timeEntries s))"
    using keys by (simp add: entry_keys_ok_def)
  let ?e' = "entry\<lparr>checkOutTime := Some now,
                     hoursWorked := Some (toString (elapsed_hours now checkIn)),
                     billableHours := Some (toString (min (elapsed_hours now checkIn)
                                                      (parseFloat (maxBillableHours t)))),
                     pay := Some (toString (min (elapsed_hours now checkIn)
                                              (parseFloat (maxBillableHours t))
                                            * parseFloat (hourlyRate t)))\<rparr>"
  have "snd (checkout parseFloat toString s i now)
             = s\<lparr>teachers :=
                    map_set i (t\<lparr>isCheckedIn := False, currentCheckInTime := None\<rparr>) (teachers s),
                  timeEntries :=
                    map (\<lambda>p. if fst p = idE entry then (idE entry, ?e') else p) (timeEntries s)\<rparr>"
    by (simp add: checkout_success [OF t] found look(1) Let_def
        map_set_present [OF dist look(2)])
  moreover have "idE ?e' = idE entry" and "checkOutTime ?e' \<noteq> None"
    by simp_all
  ultimately show ?thesis
    using entry(1) by blast
qed

lemma open_entries_replace:
  assumes keys: "entry_keys_ok s" and mem: "entry \<in> set (getTimeEntries s)"
    and closed: "checkOutTime entry' \<noteq> None"
  shows "open_entries
           (s\<lparr>timeEntries :=
                map (\<lambda>p. if fst p = idE entry then (idE entry, entry') else p) (timeEntries s)\<rparr>) j
         = filter (\<lambda>x. x \<noteq> entry) (open_entries s j)"
proof -
  have key: "idE x = k" if "(k, x) \<in> set (timeEntries s)" for k x
    using keys that by (auto simp: entry_keys_ok_def list_all_iff)
  have same: "x = entry" if "(k, x) \<in> set (timeEntries s)" and "k = idE entry" for k x
  proof -
    from that(1) have "x \<in> set (getTimeEntries s)"
      by (force simp: getTimeEntries_def map_values_def)
    moreover have "idE x = idE entry"
      using key [OF that(1)] that(2) by simp
    ultimately show ?thesis
      using entry_keys_unique [OF keys _ mem] by blast
  qed
  have "filter (\<lambda>x. teacherId x = j \<and> checkOutTime x = None)
          (map snd (map (\<lambda>p. if fst p = idE entry then (idE entry, entry') else p) m))
        = filter (\<lambda>x. x \<noteq> entry)
            (filter (\<lambda>x. teacherId x = j \<and> checkOutTime x = None) (map snd m))"
    if "set m \<subseteq> set (timeEntries s)" for m
    using that
  proof (induction m)
    case Nil
    then show ?case by simp
  next
    case (Cons p m)
    obtain k x where p: "p = (k, x)"
      by (cases p)
    from Cons.prems p have px: "(k, x) \<in> set (timeEntries s)"
      by simp
    from Cons have IH: "filter (\<lambda>x. teacherId x = j \<and> checkOutTime x = None)
          (map snd (map (\<lambda>p. if fst p = idE entry then (idE entry, entry') else p) m))
        = filter (\<lambda>x. x \<noteq> entry)
            (filter (\<lambda>x. teacherId x = j \<and> checkOutTime x = None) (map snd m))"
      by simp
    show ?case
    proof (cases "k = idE entry")
      case True
      with same [OF px] have "x = entry"
        by simp
      with True p IH closed show ?thesis
        by simp
    next
      case False
      with key [OF px] have "x \<noteq> entry"
        by auto
      with False p IH show ?thesis
        by simp
    qed
  qed
  from this [of "timeEntries s"] show ?thesis
    by (simp add: open_entries_def getTimeEntries_def map_values_def)
qed

lemma checkout_session:
  assumes "sessions_ok s" and keys: "entry_keys_ok s"
    and day: "\<forall>t checkIn. getTeacher s i = Some t \<and> currentCheckInTime t = Some checkIn
                \<longrightarrow> toISODate now = toISODate checkIn"
  shows "sessions_ok (snd (checkout parseFloat toString s i now))"
    and "entry_keys_ok (snd (checkout parseFloat toString s i now))"
proof -
  have all: "session_ok s j" for j
    using assms(1) by (simp add: sessions_ok_def)
  show "sessions_ok (snd (checkout parseFloat toString s i now))"
  proof (cases "\<exists>t checkIn. getTeacher s i = Some t \<and> isCheckedIn t
               \<and> currentCheckInTime t = Some checkIn")
    case False
    then show ?thesis
      using assms(1) by (simp add: checkout_failure)
  next
    case True
    then obtain t checkIn where t: "getTeacher s i = Some t" "isCheckedIn t"
        "currentCheckInTime t = Some checkIn"
      by blast
    with day have same: "toISODate now = toISODate checkIn"
      by blast
    from checkout_same_day [OF all [of i] keys t same, of parseFloat toString]
    obtain entry entry' where e: "open_entries s i = [entry]" "idE entry' = idE entry"
        "checkOutTime entry' \<noteq> None"
      and eq: "snd (checkout parseFloat toString s i now)
             = s\<lparr>teachers :=
                    map_set i (t\<lparr>isCheckedIn := False, currentCheckInTime := None\<rparr>) (teachers s),
                  timeEntries :=
                    map (\<lambda>p. if fst p = idE entry then (idE entry, entry') else p) (timeEntries s)\<rparr>"
      by blast
    have "entry \<in> set (open_entries s i)"
      using e(1) by simp
    then have mem: "entry \<in> set (getTimeEntries s)" and mine: "teacherId entry = i"
      by (simp_all add: open_entries_def)
    have opens: "open_entries (snd (checkout parseFloat toString s i now)) j
                   = filter (\<lambda>x. x \<noteq> entry) (open_entries s j)" for j
      unfolding eq using open_entries_replace [OF keys mem e(3), of j]
      by (simp add: open_entries_def getTimeEntries_def)
    have teacher: "getTeacher (snd (checkout parseFloat toString s i now)) j
                   = (if j = i then Some (t\<lparr>isCheckedIn := False, currentCheckInTime := None\<rparr>)
                      else getTeacher s j)" for j
      unfolding eq by (simp add: getTeacher_def map_get_set)
    have "session_ok (snd (checkout parseFloat toString s i now)) j" for j
    proof (cases "j = i")
      case True
      then show ?thesis
        using e(1) by (simp add: session_ok_def opens teacher)
    next
      case False
      have "entry \<notin> set (open_entries s j)"
        using False mine by (auto simp: open_entries_def)
      then have "filter (\<lambda>x. x \<noteq> entry) (open_entries s j) = open_entries s j"
        by (auto intro: filter_True)
      with False all [of j] show ?thesis
        by (simp add: session_ok_def opens teacher)
    qed
    then show ?thesis
      by (simp add: sessions_ok_def)
  qed
  show "entry_keys_ok (snd (checkout parseFloat toString s i now))"
  proof (cases "\<exists>t checkIn. getTeacher s i = Some t \<and> isCheckedIn t
               \<and> currentCheckInTime t = Some checkIn")
    case False
    then show ?thesis
      using keys by (simp add: checkout_failure)
  next
    case True
    then obtain t checkIn where t: "getTeacher s i = Some t" "isCheckedIn t"
        "currentCheckInTime t = Some checkIn"
      by blast
    with day have same: "toISODate now = toISODate checkIn"
      by blast
    from checkout_same_day [OF all [of i] keys t same, of parseFloat toString]
    obtain entry entry' :: TimeEntry where e: "idE entry' = idE entry"
      and eq: "snd (checkout parseFloat toString s i now)
             = s\<lparr>teachers :=
                    map_set i (t\<lparr>isCheckedIn := False, currentCheckInTime := None\<rparr>) (teachers s),
                  timeEntries :=
                    map (\<lambda>p. if fst p = idE entry then (idE entry, entry') else p) (timeEntries s)\<rparr>"
      by blast
    let ?es = "map (\<lambda>p. if fst p = idE entry then (idE entry, entry') else p) (timeEntries s)"
    have te: "timeEntries (snd (checkout parseFloat toString s i now)) = ?es"
      by (simp add: eq)
    from keys have "distinct (map fst (timeEntries s))"
      by (simp add: entry_keys_ok_def)
    then have d: "distinct (map fst ?es)"
      by (simp only: map_fst_replace)
    have l: "list_all (\<lambda>(k, entry). idE entry = k) ?es"
      using keys e by (auto simp: entry_keys_ok_def list_all_iff)
    from d l show ?thesis
      unfolding entry_keys_ok_def te by (intro conjI)
  qed
qed

lemma same_day_invariant:
  assumes "same_day_reachable s"
  shows "sessions_ok s \<and> entry_keys_ok s"
  using assms
proof (induction rule: same_day_reachable.induct)
  case start
  show ?case
    by (simp add: sessions_ok_def session_ok_def entry_keys_ok_def constructor_def
        open_entries_def getTimeEntries_def map_values_def getTeacher_def map_get_def)
next
  case (create s uuid isAdmin body)
  then show ?case
    by (simp add: create_teacher_session create_teacher_keys)
next
  case (check_in s uuid i now)
  then show ?case
    by (simp add: checkin_session checkin_keys)
next
  case (check_out s i now parseFloat toString)
  then show ?case
    by (simp add: checkout_session)
qed

lemma same_day_one_open_entry:
  assumes "same_day_reachable s"
  shows "length (open_entries s i) \<le> 1"
    and "open_entries s i \<noteq> [] \<longleftrightarrow> (\<exists>t. getTeacher s i = Some t \<and> isCheckedIn t)"
proof -
  from same_day_invariant [OF assms] have ok: "session_ok s i"
    by (simp add: sessions_ok_def)
  then show "length (open_entries s i) \<le> 1"
    by (auto simp: session_ok_def)
  from ok show "open_entries s i \<noteq> [] \<longleftrightarrow> (\<exists>t. getTeacher s i = Some t \<and> isCheckedIn t)"
    by (auto simp: session_ok_def)
qed

end
